theory Spec2Isabelle
  imports Main
begin

section \<open>Data model of \<open>keanus_candy/models/person.py\<close>\<close>

text \<open>
  A Python \<open>str\<close> is represented by its UTF-8 encoding, a list of 8-bit characters:
  equality and concatenation of strings are equality and concatenation of the encodings,
  and a string is ASCII-only exactly when every byte is below 128. Python's unbounded
  \<open>int\<close> is \<open>int\<close>.
\<close>

datatype error =
    ValueError string
  | TypeError string
  | CartInvalidQuantity
  | CartNothingToOrder

text \<open>
  \<open>ValueError\<close> and \<open>TypeError\<close> are the exceptions raised by \<open>person.py\<close> itself and by
  the standard library it calls, with their messages. The last two constructors stand for
  the failures raised inside the \<open>ShoppingCart\<close> collaborator, whose Python exception
  classes are not part of \<open>person.py\<close>.
\<close>

record person =
  person_id :: int
  name :: string
  email :: string
  email_verified :: bool

type_synonym addr = nat

record user = person +
  password :: string
  orders :: addr
  cart :: "addr option"
  is_active :: bool
  deactivated_reason :: "string option"

record staff = user +
  position :: string

text \<open>
  The fields \<open>_orders\<close> and \<open>_cart\<close> hold references: \<open>orders\<close> is the address of the
  list object created by the constructor, \<open>cart\<close> is \<open>None\<close> or the address of the
  \<open>ShoppingCart\<close> object. The objects themselves live in the store below.
\<close>

record candy =
  quantity :: int

record 'pm order =
  order_payment :: 'pm
  order_lines :: "(candy \<times> int) list"

record shopping_cart =
  cart_owner :: int
  cart_items :: "(candy \<times> int) list"

record ('u, 'pm) state =
  usr :: "'u user_scheme"
  carts :: "addr \<Rightarrow> shopping_cart"
  lists :: "addr \<Rightarrow> 'pm order list"
  next_addr :: addr

text \<open>
  The store: \<open>carts\<close> and \<open>lists\<close> give the contents of the cart and list objects by
  address, and \<open>next_addr\<close> is the address the next created object receives, so that a new
  object is distinct from every object created before it.
\<close>

subsection \<open>The standard library: \<open>hmac.compare_digest\<close>\<close>

definition is_ascii :: "string \<Rightarrow> bool" where
  "is_ascii s = list_all (\<lambda>c. \<not> digit7 c) s"

text \<open>
  \<open>hmac.compare_digest(a, b)\<close> on two \<open>str\<close> arguments returns \<open>a == b\<close> when both are
  ASCII-only and raises \<open>TypeError\<close> otherwise.
\<close>

definition compare_digest :: "string \<Rightarrow> string \<Rightarrow> error + bool" where
  "compare_digest a b =
     (if is_ascii a \<and> is_ascii b then Inr (a = b)
      else Inl (TypeError ''comparing strings with non-ASCII characters is not supported''))"

subsection \<open>class \<open>Person\<close>\<close>

definition Person_init :: "int \<Rightarrow> string \<Rightarrow> string \<Rightarrow> bool \<Rightarrow> person" where
  "Person_init pid nm em ver =
     \<lparr>person_id = pid, name = nm, email = em, email_verified = ver\<rparr>"

definition display_info :: "'a person_scheme \<Rightarrow> string" where
  "display_info p = name p @ '' ('' @ email p @ '')''"

definition verify_email :: "'a person_scheme \<Rightarrow> 'a person_scheme" where
  "verify_email p = p\<lparr>email_verified := True\<rparr>"

definition update_email :: "string \<Rightarrow> 'a person_scheme \<Rightarrow> 'a person_scheme" where
  "update_email new_email p = p\<lparr>email := new_email, email_verified := False\<rparr>"

subsection \<open>class \<open>User\<close>: the methods that touch only the account's own fields\<close>

definition login :: "'a user_scheme \<Rightarrow> string \<Rightarrow> string \<Rightarrow> error + bool" where
  "login u em pw =
     (if \<not> is_active u then Inr False
      else if email u \<noteq> em then Inr False
      else compare_digest (password u) pw)"

definition change_password ::
  "string \<Rightarrow> string \<Rightarrow> 'a user_scheme \<Rightarrow> (error + bool) \<times> 'a user_scheme" where
  "change_password old_password new_password u =
     (case compare_digest (password u) old_password of
        Inl e \<Rightarrow> (Inl e, u)
      | Inr False \<Rightarrow> (Inr False, u)
      | Inr True \<Rightarrow> (Inr True, u\<lparr>password := new_password\<rparr>))"

definition deactivate :: "string option \<Rightarrow> 'a user_scheme \<Rightarrow> 'a user_scheme" where
  "deactivate reason u = u\<lparr>is_active := False, deactivated_reason := reason\<rparr>"

subsection \<open>class \<open>Staff\<close>\<close>

definition update_inventory ::
  "'s staff_scheme \<Rightarrow> 'a candy_scheme \<Rightarrow> int \<Rightarrow> error + 'a candy_scheme" where
  "update_inventory self c new_quantity =
     (if new_quantity < 0 then Inl (ValueError ''Quantity cannot be negative'')
      else Inr (c\<lparr>quantity := new_quantity\<rparr>))"

subsection \<open>The \<open>ShoppingCart\<close> collaborator\<close>

text \<open>
  Modelled from the spec: the constructor \<open>ShoppingCart(user)\<close> of the absent module
  \<open>shopping\<close>. The new Cart is exclusively owned by the Account that creates it and holds
  no items; the owner is recorded by its identifier.
\<close>

definition ShoppingCart_init :: "'a user_scheme \<Rightarrow> shopping_cart" where
  "ShoppingCart_init u = \<lparr>cart_owner = person_id u, cart_items = []\<rparr>"

text \<open>
  Modelled from the spec: the truth value Python gives a \<open>ShoppingCart\<close> object in
  \<open>if not self._cart\<close>. The spec reads that test as "no cart instantiated", not "cart has
  zero items": the absent class defines neither \<open>__bool__\<close> nor \<open>__len__\<close>, so every
  instance is true.
\<close>

definition cart_truthy :: "shopping_cart \<Rightarrow> bool" where
  "cart_truthy k = True"

text \<open>
  Modelled from the spec: \<open>ShoppingCart.add_item(item, quantity)\<close> of the absent module
  \<open>shopping\<close>. The quantity must be a positive integer, a constraint enforced by the Cart;
  otherwise the Cart accumulates the item.
\<close>

definition add_item :: "candy \<Rightarrow> int \<Rightarrow> shopping_cart \<Rightarrow> error + shopping_cart" where
  "add_item c q k =
     (if q \<le> 0 then Inl CartInvalidQuantity
      else Inr (k\<lparr>cart_items := cart_items k @ [(c, q)]\<rparr>))"

text \<open>
  Modelled from the spec: \<open>ShoppingCart.create_order(payment_method)\<close> of the absent module
  \<open>shopping\<close>. It fails if the Cart is empty and otherwise produces an Order for the given
  payment method, passed through unchanged; the Cart itself is not changed.
\<close>

definition create_order :: "'pm \<Rightarrow> shopping_cart \<Rightarrow> error + 'pm order" where
  "create_order pm k =
     (if cart_items k = [] then Inl CartNothingToOrder
      else Inr \<lparr>order_payment = pm, order_lines = cart_items k\<rparr>)"

text \<open>
  Modelled from the spec: \<open>ShoppingCart.clear()\<close> of the absent module \<open>shopping\<close>. It
  resets the Cart to an empty state.
\<close>

definition clear :: "shopping_cart \<Rightarrow> shopping_cart" where
  "clear k = k\<lparr>cart_items := []\<rparr>"

subsection \<open>class \<open>User\<close>: construction and the methods that use the store\<close>

definition empty_cart_obj :: shopping_cart where
  "empty_cart_obj = \<lparr>cart_owner = 0, cart_items = []\<rparr>"

text \<open>
  \<open>User(user_id, name, email, password, is_active=...)\<close> in a store that holds nothing
  else: the list object of \<open>_orders\<close> is created at address 0.
\<close>

definition User_init ::
  "int \<Rightarrow> string \<Rightarrow> string \<Rightarrow> string \<Rightarrow> bool \<Rightarrow> (unit, 'pm) state" where
  "User_init uid nm em pw act =
     \<lparr>usr = \<lparr>person_id = uid, name = nm, email = em, email_verified = False,
             password = pw, orders = 0, cart = None, is_active = act,
             deactivated_reason = None\<rparr>,
      carts = (\<lambda>_. empty_cart_obj),
      lists = (\<lambda>_. []),
      next_addr = 1\<rparr>"

definition Staff_init ::
  "int \<Rightarrow> string \<Rightarrow> string \<Rightarrow> string \<Rightarrow> string \<Rightarrow> (\<lparr>position :: string\<rparr>, 'pm) state" where
  "Staff_init uid nm em pw pos =
     \<lparr>usr = \<lparr>person_id = uid, name = nm, email = em, email_verified = False,
             password = pw, orders = 0, cart = None, is_active = True,
             deactivated_reason = None, position = pos\<rparr>,
      carts = (\<lambda>_. empty_cart_obj),
      lists = (\<lambda>_. []),
      next_addr = 1\<rparr>"

definition new_cart :: "('u, 'pm) state \<Rightarrow> addr \<times> ('u, 'pm) state" where
  "new_cart s =
     (let a = next_addr s
      in (a, s\<lparr>usr := (usr s)\<lparr>cart := Some a\<rparr>,
               carts := (carts s)(a := ShoppingCart_init (usr s)),
               next_addr := Suc a\<rparr>))"

definition ensure_cart :: "('u, 'pm) state \<Rightarrow> addr \<times> ('u, 'pm) state" where
  "ensure_cart s =
     (case cart (usr s) of
        None \<Rightarrow> new_cart s
      | Some a \<Rightarrow> if cart_truthy (carts s a) then (a, s) else new_cart s)"

definition add_to_cart ::
  "candy \<Rightarrow> int \<Rightarrow> ('u, 'pm) state \<Rightarrow> (error + unit) \<times> ('u, 'pm) state" where
  "add_to_cart c q s =
     (case ensure_cart s of
        (a, s1) \<Rightarrow>
          (case add_item c q (carts s1 a) of
             Inl e \<Rightarrow> (Inl e, s1)
           | Inr k \<Rightarrow> (Inr (), s1\<lparr>carts := (carts s1)(a := k)\<rparr>)))"

definition checkout ::
  "'pm \<Rightarrow> ('u, 'pm) state \<Rightarrow> (error + 'pm order) \<times> ('u, 'pm) state" where
  "checkout pm s =
     (case cart (usr s) of
        None \<Rightarrow> (Inl (ValueError ''Cart is empty''), s)
      | Some a \<Rightarrow>
          if \<not> cart_truthy (carts s a) then (Inl (ValueError ''Cart is empty''), s)
          else
            (case create_order pm (carts s a) of
               Inl e \<Rightarrow> (Inl e, s)
             | Inr ord \<Rightarrow>
                 (Inr ord,
                  s\<lparr>lists := (lists s)(orders (usr s) := lists s (orders (usr s)) @ [ord]),
                    carts := (carts s)(a := clear (carts s a))\<rparr>)))"

definition get_orders :: "('u, 'pm) state \<Rightarrow> addr \<times> ('u, 'pm) state" where
  "get_orders s =
     (let a = next_addr s
      in (a, s\<lparr>lists := (lists s)(a := lists s (orders (usr s))), next_addr := Suc a\<rparr>))"

definition get_cart :: "('u, 'pm) state \<Rightarrow> addr option" where
  "get_cart s = cart (usr s)"

definition order_count :: "('u, 'pm) state \<Rightarrow> int" where
  "order_count s = int (length (lists s (orders (usr s))))"

subsection \<open>Histories of an account\<close>

text \<open>
  What can happen to an account after its construction: a call of one of its methods, an
  in-place change of the Cart through the reference that \<open>get_cart\<close> hands out (adding,
  removing or clearing items), or an in-place change of a list object (appending to it,
  clearing it). A call that raises leaves the state as it was at the \<open>raise\<close>.
\<close>

datatype 'pm event =
    VerifyEmail
  | UpdateEmail string
  | Login string string
  | ChangePassword string string
  | Deactivate "string option"
  | AddToCart candy int
  | Checkout 'pm
  | GetOrders
  | CartMutate "shopping_cart \<Rightarrow> shopping_cart"
  | ListMutate addr "'pm order list \<Rightarrow> 'pm order list"

fun is_add_to_cart :: "'pm event \<Rightarrow> bool" where
  "is_add_to_cart (AddToCart c q) = True"
| "is_add_to_cart _ = False"

definition cart_mutate ::
  "(shopping_cart \<Rightarrow> shopping_cart) \<Rightarrow> ('u, 'pm) state \<Rightarrow> ('u, 'pm) state" where
  "cart_mutate f s =
     (case get_cart s of
        None \<Rightarrow> s
      | Some a \<Rightarrow> s\<lparr>carts := (carts s)(a := f (carts s a))\<rparr>)"

definition list_mutate ::
  "addr \<Rightarrow> ('pm order list \<Rightarrow> 'pm order list) \<Rightarrow> ('u, 'pm) state \<Rightarrow> ('u, 'pm) state" where
  "list_mutate a f s = s\<lparr>lists := (lists s)(a := f (lists s a))\<rparr>"

fun step :: "'pm event \<Rightarrow> ('u, 'pm) state \<Rightarrow> ('u, 'pm) state" where
  "step VerifyEmail s = s\<lparr>usr := verify_email (usr s)\<rparr>"
| "step (UpdateEmail e) s = s\<lparr>usr := update_email e (usr s)\<rparr>"
| "step (Login e p) s = s"
| "step (ChangePassword old new) s = s\<lparr>usr := snd (change_password old new (usr s))\<rparr>"
| "step (Deactivate r) s = s\<lparr>usr := deactivate r (usr s)\<rparr>"
| "step (AddToCart c q) s = snd (add_to_cart c q s)"
| "step (Checkout pm) s = snd (checkout pm s)"
| "step GetOrders s = snd (get_orders s)"
| "step (CartMutate f) s = cart_mutate f s"
| "step (ListMutate a f) s = list_mutate a f s"

fun run :: "'pm event list \<Rightarrow> ('u, 'pm) state \<Rightarrow> ('u, 'pm) state" where
  "run [] s = s"
| "run (e # es) s = run es (step e s)"

section \<open>Properties\<close>

lemmas user_defs = verify_email_def update_email_def change_password_def deactivate_def

lemmas store_defs = add_to_cart_def ensure_cart_def new_cart_def cart_truthy_def checkout_def
  get_orders_def cart_mutate_def list_mutate_def get_cart_def

subsection \<open>Identity record\<close>

text \<open>
  C5: after \<open>update_email\<close> the verified flag is false, whatever the record and the new
  address: also when \<open>verify_email\<close> was called just before, and also when the new address
  is the address already stored. The email field then holds the new address.
\<close>

theorem update_email_resets_verified:
  "\<not> email_verified (update_email new_email p)
   \<and> \<not> email_verified (update_email new_email (verify_email p))
   \<and> \<not> email_verified (update_email (email p) p)
   \<and> email (update_email new_email p) = new_email"
  by (simp add: update_email_def verify_email_def)

subsection \<open>Inventory\<close>

text \<open>
  C9: \<open>update_inventory\<close> raises \<open>ValueError('Quantity cannot be negative')\<close> exactly when
  the new quantity is negative, and raises nothing else; for a quantity of zero or more it
  writes the quantity field and leaves the rest of the item alone. In particular \<open>-1\<close> is
  refused and \<open>0\<close> is accepted, leaving the quantity at 0.
\<close>

theorem update_inventory_rejects_exactly_negative:
  "(update_inventory self c q = Inl (ValueError ''Quantity cannot be negative'')) = (q < 0)
   \<and> isl (update_inventory self c q) = (q < 0)
   \<and> (0 \<le> q \<longrightarrow> update_inventory self c q = Inr (c\<lparr>quantity := q\<rparr>))
   \<and> update_inventory self c (- 1) = Inl (ValueError ''Quantity cannot be negative'')
   \<and> (\<exists>c'. update_inventory self c 0 = Inr c' \<and> quantity c' = 0)"
  by (simp add: update_inventory_def)

theorem update_inventory_rejects_exactly_negative_witness:
  "(0::int) \<le> 3
   \<and> update_inventory
        (usr (Staff_init 7 ''Sam'' ''s@x.com'' ''pw'' ''clerk''
                :: (\<lparr>position :: string\<rparr>, string) state))
        \<lparr>quantity = 5\<rparr> 3 = Inr \<lparr>quantity = 3\<rparr>"
proof -
  have h: "(0::int) \<le> 3" by simp
  show ?thesis
    using h update_inventory_rejects_exactly_negative
      [of "usr (Staff_init 7 ''Sam'' ''s@x.com'' ''pw'' ''clerk''
                  :: (\<lparr>position :: string\<rparr>, string) state)"
          "\<lparr>quantity = 5\<rparr>" 3]
    by simp
qed

subsection \<open>Authentication and credential change\<close>

text \<open>
  What \<open>login\<close> and \<open>change_password\<close> do on every input. On ASCII-only credentials they
  are the comparison of the three fields and the guarded replacement of the password; they
  raise exactly when \<open>compare_digest\<close> is reached with a credential that is not ASCII-only.
\<close>

lemma login_inactive: "\<not> is_active u \<Longrightarrow> login u em pw = Inr False"
  by (simp add: login_def)

lemma login_ascii:
  "is_ascii (password u) \<Longrightarrow> is_ascii pw \<Longrightarrow>
     login u em pw = Inr (is_active u \<and> email u = em \<and> password u = pw)"
  by (simp add: login_def compare_digest_def)

lemma login_True_iff:
  "(login u em pw = Inr True)
     = (is_active u \<and> email u = em \<and> password u = pw \<and> is_ascii pw)"
  by (auto simp: login_def compare_digest_def)

lemma login_raises_iff:
  "isl (login u em pw)
     = (is_active u \<and> email u = em \<and> \<not> (is_ascii (password u) \<and> is_ascii pw))"
  by (simp add: login_def compare_digest_def)

lemma change_password_ascii:
  "is_ascii (password u) \<Longrightarrow> is_ascii old \<Longrightarrow>
     change_password old new u =
       (if password u = old then (Inr True, u\<lparr>password := new\<rparr>) else (Inr False, u))"
  by (simp add: change_password_def compare_digest_def)

lemma change_password_raises_iff:
  "isl (fst (change_password old new u)) = (\<not> (is_ascii (password u) \<and> is_ascii old))"
  by (simp add: change_password_def compare_digest_def split: bool.splits)

lemma change_password_not_True_unchanged:
  "fst (change_password old new u) \<noteq> Inr True \<Longrightarrow> snd (change_password old new u) = u"
  by (auto simp: change_password_def split: sum.splits bool.splits)

lemma change_password_then_login_ascii:
  "fst (change_password old new u) = Inr True \<Longrightarrow> is_ascii new \<Longrightarrow> is_ascii c \<Longrightarrow>
     login (snd (change_password old new u)) (email u) c = Inr (is_active u \<and> c = new)"
  by (auto simp: change_password_def login_def compare_digest_def
        split: sum.splits bool.splits)

text \<open>
  C3: \<open>login\<close> does raise. The account
  \<open>User(1, 'Ann', 'a@x.com', 'p' + chr(228) + 'ssword')\<close>, whose password has the letter
  a-umlaut (UTF-8 bytes C3 A4) in second place, is active; \<open>login\<close> with its own email and its own
  password reaches \<open>hmac.compare_digest\<close>, which raises \<open>TypeError\<close> instead of
  returning a truth value.
\<close>

theorem login_raises_on_non_ascii_password:
  "login (usr (User_init 1 ''Ann'' ''a@x.com'' [CHR ''p'', CHR 0xC3, CHR 0xA4, CHR ''s'', CHR ''s'', CHR ''w'', CHR ''o'', CHR ''r'', CHR ''d''] True :: (unit, string) state))
     ''a@x.com'' [CHR ''p'', CHR 0xC3, CHR 0xA4, CHR ''s'', CHR ''s'', CHR ''w'', CHR ''o'', CHR ''r'', CHR ''d'']
   = Inl (TypeError ''comparing strings with non-ASCII characters is not supported'')"
  by (simp add: login_def User_init_def compare_digest_def is_ascii_def)

text \<open>
  C7: \<open>change_password\<close> does not return false on every mismatch. On the account
  \<open>User(1, 'Ann', 'a@x.com', 'secret123')\<close>, the call with the old password
  \<open>'p' + chr(228) + 'ssword'\<close> (a-umlaut in second place), which differs from the stored one, raises
  \<open>TypeError\<close>; the account is left as it was.
\<close>

theorem change_password_raises_on_non_ascii_password:
  "change_password [CHR ''p'', CHR 0xC3, CHR 0xA4, CHR ''s'', CHR ''s'', CHR ''w'', CHR ''o'', CHR ''r'', CHR ''d''] ''new'' (usr (User_init 1 ''Ann'' ''a@x.com'' ''secret123'' True :: (unit, string) state))
   = (Inl (TypeError ''comparing strings with non-ASCII characters is not supported''),
      usr (User_init 1 ''Ann'' ''a@x.com'' ''secret123'' True :: (unit, string) state))"
  by (simp add: change_password_def User_init_def compare_digest_def is_ascii_def)

text \<open>
  C10: a successful credential change need not be followed by a successful
  authentication. On the active account \<open>User(1, 'Ann', 'a@x.com', 'secret123')\<close>,
  \<open>change_password('secret123', 'p' + chr(228) + 'ssword')\<close> returns true, and the
  \<open>login('a@x.com', 'p' + chr(228) + 'ssword')\<close> that follows raises \<open>TypeError\<close>.
\<close>

theorem login_raises_after_change_to_non_ascii_password:
  "fst (change_password ''secret123'' [CHR ''p'', CHR 0xC3, CHR 0xA4, CHR ''s'', CHR ''s'', CHR ''w'', CHR ''o'', CHR ''r'', CHR ''d''] (usr (User_init 1 ''Ann'' ''a@x.com'' ''secret123'' True :: (unit, string) state))) = Inr True
   \<and> login (snd (change_password ''secret123'' [CHR ''p'', CHR 0xC3, CHR 0xA4, CHR ''s'', CHR ''s'', CHR ''w'', CHR ''o'', CHR ''r'', CHR ''d''] (usr (User_init 1 ''Ann'' ''a@x.com'' ''secret123'' True :: (unit, string) state)))) ''a@x.com'' [CHR ''p'', CHR 0xC3, CHR 0xA4, CHR ''s'', CHR ''s'', CHR ''w'', CHR ''o'', CHR ''r'', CHR ''d'']
     = Inl (TypeError ''comparing strings with non-ASCII characters is not supported'')"
  by (simp add: change_password_def login_def User_init_def compare_digest_def is_ascii_def)

subsection \<open>The Cart reference along a history\<close>

lemma cart_step:
  "cart (usr (step e s)) =
     (if is_add_to_cart e
      then Some (case cart (usr s) of None \<Rightarrow> next_addr s | Some a \<Rightarrow> a)
      else cart (usr s))"
  by (cases e)
     (auto simp: user_defs store_defs Let_def
        split: sum.splits bool.splits option.splits prod.splits)

lemma cart_run_Some:
  "cart (usr s) = Some a \<Longrightarrow> cart (usr (run es s)) = Some a"
  by (induction es arbitrary: s) (simp_all add: cart_step)




lemma checkout_succeeds_iff:
  "(\<exists>ord. fst (checkout pm s) = Inr ord)
     = (\<exists>a. get_cart s = Some a \<and> cart_items (carts s a) \<noteq> [])"
  by (cases "cart (usr s)")
     (simp_all add: checkout_def get_cart_def cart_truthy_def create_order_def)




text \<open>
  C4: after a call of \<open>add_to_cart\<close> the account holds a Cart at some address \<open>a\<close>: the
  Cart it held before the call, if it held one. Whatever happens afterwards, it still holds
  the Cart at \<open>a\<close>; \<open>_ensure_cart\<close> then returns \<open>a\<close> and changes nothing, and a later
  \<open>add_to_cart\<close> keeps \<open>a\<close> and creates no object.
\<close>

theorem cart_identity_stable:
  "\<exists>a. get_cart (snd (add_to_cart c q s)) = Some a
      \<and> (get_cart s = None \<or> get_cart s = Some a)
      \<and> get_cart (run es (snd (add_to_cart c q s))) = Some a
      \<and> ensure_cart (run es (snd (add_to_cart c q s))) = (a, run es (snd (add_to_cart c q s)))
      \<and> get_cart (snd (add_to_cart c' q' (run es (snd (add_to_cart c q s))))) = Some a
      \<and> next_addr (snd (add_to_cart c' q' (run es (snd (add_to_cart c q s)))))
          = next_addr (run es (snd (add_to_cart c q s)))"
proof -
  let ?s1 = "snd (add_to_cart c q s)"
  have s1: "cart (usr (step (AddToCart c q) s))
              = Some (case cart (usr s) of None \<Rightarrow> next_addr s | Some a \<Rightarrow> a)"
    by (simp only: cart_step) simp
  then obtain a where a: "cart (usr ?s1) = Some a" by simp
  have b: "cart (usr s) = None \<or> cart (usr s) = Some a"
    using s1 a by (cases "cart (usr s)") simp_all
  have r: "cart (usr (run es ?s1)) = Some a"
    using a by (rule cart_run_Some)
  have e: "ensure_cart (run es ?s1) = (a, run es ?s1)"
    using r by (simp add: ensure_cart_def cart_truthy_def)
  have "cart (usr (step (AddToCart c' q') (run es ?s1))) = Some a"
    using r by (simp only: cart_step) simp
  moreover have "next_addr (snd (add_to_cart c' q' (run es ?s1))) = next_addr (run es ?s1)"
    using e by (simp add: add_to_cart_def split: sum.splits)
  ultimately show ?thesis using a b r e by (simp add: get_cart_def)
qed

subsection \<open>Checkout\<close>

lemma add_to_cart_positive:
  assumes "0 < q"
  shows "\<exists>a. fst (add_to_cart c q s) = Inr ()
           \<and> get_cart (snd (add_to_cart c q s)) = Some a
           \<and> cart_items (carts (snd (add_to_cart c q s)) a) \<noteq> []"
  using assms
  by (auto simp: add_to_cart_def ensure_cart_def new_cart_def cart_truthy_def add_item_def
        get_cart_def Let_def split: option.splits)

text \<open>
  C2, as stated, fails: on a new account, \<open>add_to_cart(candy, 1)\<close> followed by a
  successful \<open>checkout\<close> leaves the Cart cleared, and the next \<open>checkout\<close> fails inside
  \<open>create_order\<close>, although \<open>add_to_cart\<close> has been called.
\<close>

theorem checkout_fails_on_cleared_cart:
  "fst (checkout ''card''
     (run [AddToCart \<lparr>quantity = 5\<rparr> 1, Checkout ''card''] (User_init 1 ''Ann'' ''a@x.com'' ''secret123'' True :: (unit, string) state))) = Inl CartNothingToOrder"
  by (simp add: store_defs User_init_def add_item_def create_order_def clear_def
        ShoppingCart_init_def Let_def)

text \<open>
  C2, amended: for every account whose Cart exists and holds at least one item,
  \<open>checkout\<close> succeeds, and afterwards the order history is the old one with the returned
  Order appended (so its length has grown by exactly 1), the account holds the same Cart,
  now empty, and the Order's payment method is the one passed in.
\<close>

theorem checkout_succeeds_on_nonempty_cart:
  assumes "get_cart s = Some a" and "cart_items (carts s a) \<noteq> []"
  shows "\<exists>ord s'. checkout pm s = (Inr ord, s')
           \<and> lists s' (orders (usr s')) = lists s (orders (usr s)) @ [ord]
           \<and> order_count s' = order_count s + 1
           \<and> get_cart s' = Some a
           \<and> cart_items (carts s' a) = []
           \<and> order_payment ord = pm"
  using assms
  by (simp add: checkout_def get_cart_def order_count_def cart_truthy_def create_order_def
        clear_def)

theorem checkout_succeeds_on_nonempty_cart_witness:
  "get_cart (snd (add_to_cart \<lparr>quantity = 5\<rparr> 2 (User_init 1 ''Ann'' ''a@x.com'' ''secret123'' True :: (unit, string) state))) = Some 1
   \<and> cart_items (carts (snd (add_to_cart \<lparr>quantity = 5\<rparr> 2 (User_init 1 ''Ann'' ''a@x.com'' ''secret123'' True :: (unit, string) state))) 1) \<noteq> []
   \<and> (\<exists>ord s'. checkout ''card'' (snd (add_to_cart \<lparr>quantity = 5\<rparr> 2 (User_init 1 ''Ann'' ''a@x.com'' ''secret123'' True :: (unit, string) state))) = (Inr ord, s')
         \<and> order_count s' = 1 \<and> cart_items (carts s' 1) = []
         \<and> order_payment ord = ''card'')"
proof -
  let ?s = "snd (add_to_cart \<lparr>quantity = 5\<rparr> 2 (User_init 1 ''Ann'' ''a@x.com'' ''secret123'' True :: (unit, string) state))"
  have h1: "get_cart ?s = Some 1"
    by (simp add: store_defs User_init_def add_item_def Let_def)
  have h2: "cart_items (carts ?s 1) \<noteq> []"
    by (simp add: store_defs User_init_def add_item_def Let_def)
  have c: "order_count ?s = 0"
    by (simp add: store_defs User_init_def add_item_def order_count_def Let_def)
  show ?thesis
    using h1 h2 c checkout_succeeds_on_nonempty_cart [OF h1 h2, of "''card''"]
    by auto
qed

text \<open>
  C6: \<open>add_to_cart\<close> and \<open>checkout\<close> do not read the active flag. Run on a deactivated
  account, each returns or raises what it returns or raises on the same account before the
  deactivation, and leaves the state it leaves there, deactivated.
\<close>

theorem deactivation_gates_login_only:
  "add_to_cart c q (step (Deactivate r) s)
     = (fst (add_to_cart c q s), step (Deactivate r) (snd (add_to_cart c q s)))
   \<and> checkout pm (step (Deactivate r) s)
     = (fst (checkout pm s), step (Deactivate r) (snd (checkout pm s)))"
  by (auto simp: store_defs deactivate_def ShoppingCart_init_def Let_def
        split: option.splits sum.splits)

subsection \<open>The order history and its copies\<close>

text \<open>
  The list object of \<open>_orders\<close> was created before the next object will be: this holds
  after construction and is kept by everything that can happen to the account.
\<close>

lemma wf_step:
  "orders (usr s) < next_addr s \<Longrightarrow> orders (usr (step e s)) < next_addr (step e s)"
  by (cases e)
     (auto simp: user_defs store_defs Let_def
        split: sum.splits bool.splits option.splits prod.splits)

lemma wf_run:
  "orders (usr s) < next_addr s \<Longrightarrow> orders (usr (run es s)) < next_addr (run es s)"
  by (induction es arbitrary: s) (simp_all add: wf_step)

lemma wf_User_init:
  "orders (usr (run es (User_init uid nm em pw act)))
     < next_addr (run es (User_init uid nm em pw act))"
  by (rule wf_run) (simp add: User_init_def)

lemma wf_Staff_init:
  "orders (usr (run es (Staff_init uid nm em pw pos)))
     < next_addr (run es (Staff_init uid nm em pw pos))"
  by (rule wf_run) (simp add: Staff_init_def)

lemma list_mutate_internal_visible:
  "lists (list_mutate (orders (usr s)) f s) (orders (usr (list_mutate (orders (usr s)) f s)))
     = f (lists s (orders (usr s)))"
  by (simp add: list_mutate_def)

text \<open>
  C8: \<open>get_orders\<close> returns a new list object \<open>r\<close> whose elements are those of the order
  history, in the same order, and leaves the history as it was. \<open>r\<close> is not the history's
  own list object, so after any in-place change \<open>f\<close> of \<open>r\<close> (appending, clearing, ...)
  the history is still what it was, and so is what the next \<open>get_orders\<close> returns.
\<close>

theorem get_orders_independent_copy:
  assumes "orders (usr s) < next_addr s"
  shows "\<exists>r s'. get_orders s = (r, s')
           \<and> lists s' r = lists s (orders (usr s))
           \<and> lists s' (orders (usr s')) = lists s (orders (usr s))
           \<and> r \<noteq> orders (usr s')
           \<and> (\<forall>f. lists (list_mutate r f s') (orders (usr (list_mutate r f s')))
                    = lists s (orders (usr s))
                 \<and> lists (snd (get_orders (list_mutate r f s')))
                     (fst (get_orders (list_mutate r f s')))
                    = lists s (orders (usr s)))"
  using assms by (simp add: get_orders_def list_mutate_def Let_def)

theorem get_orders_independent_copy_witness:
  "orders (usr (User_init 1 ''Ann'' ''a@x.com'' ''secret123'' True :: (unit, string) state)) < next_addr (User_init 1 ''Ann'' ''a@x.com'' ''secret123'' True :: (unit, string) state)
   \<and> (\<exists>r s'. get_orders (User_init 1 ''Ann'' ''a@x.com'' ''secret123'' True :: (unit, string) state) = (r, s')
        \<and> lists (snd (get_orders (list_mutate r (\<lambda>xs. []) s')))
             (fst (get_orders (list_mutate r (\<lambda>xs. []) s'))) = [])"
proof -
  have h: "orders (usr (User_init 1 ''Ann'' ''a@x.com'' ''secret123'' True :: (unit, string) state)) < next_addr (User_init 1 ''Ann'' ''a@x.com'' ''secret123'' True :: (unit, string) state)"
    by (simp add: User_init_def)
  have l: "lists (User_init 1 ''Ann'' ''a@x.com'' ''secret123'' True :: (unit, string) state) (orders (usr (User_init 1 ''Ann'' ''a@x.com'' ''secret123'' True :: (unit, string) state))) = []"
    by (simp add: User_init_def)
  show ?thesis
    using h l get_orders_independent_copy [OF h] by metis
qed

end
